theory Spec2Isabelle
  imports Complex_Main "HOL-Library.Char_ord" "HOL-Library.List_Lexorder" "HOL-Library.Multiset"
begin

section \<open>The expenses table\<close>

text \<open>
  The program keeps its data in one SQLite table,
  \<^verbatim>\<open>expenses(id INTEGER PRIMARY KEY AUTOINCREMENT, amount REAL NOT NULL CHECK(amount >= 0),
  date TEXT NOT NULL, category TEXT DEFAULT '', note TEXT DEFAULT '')\<close>.
  A row is a record of the five columns. Text is the UTF-8 byte string, compared
  lexicographically byte by byte as SQLite's default collation does. An amount is the
  exact value of the stored double, so storing, reading back and comparing amounts are
  exact. The arithmetic that SQLite does on doubles, SUM and ROUND, is not computed here:
  its result is a parameter of \<^verbatim>\<open>summarize\<close>.
\<close>

record expense =
  e_id :: int
  e_amount :: rat
  e_date :: string
  e_category :: string
  e_note :: string

text \<open>
  The table holds its rows in rowid order, which is insertion order, and \<open>t_seq\<close> is the
  \<^verbatim>\<open>sqlite_sequence\<close> entry kept for an AUTOINCREMENT key: the largest id ever handed out.
  A database file either has no schema yet or holds the table.
\<close>

record table =
  t_rows :: "expense list"
  t_seq :: int

type_synonym db = "table option"

definition empty_table :: table where
  "empty_table = \<lparr>t_rows = [], t_seq = 0\<rparr>"

fun contents :: "db \<Rightarrow> table" where
  "contents None = empty_table"
| "contents (Some t) = t"

text \<open>\<^verbatim>\<open>init_db\<close>: CREATE TABLE IF NOT EXISTS.\<close>

definition init_db :: "db \<Rightarrow> db" where
  "init_db d = Some (contents d)"

datatype error =
  NoFieldsProvided          \<comment> \<open>ValueError("No fields provided to update.")\<close>
| NotFound int              \<comment> \<open>ValueError("Expense id ... not found.")\<close>
| IntegrityError            \<comment> \<open>sqlite3.IntegrityError: the CHECK(amount >= 0) constraint\<close>
| OverflowError             \<comment> \<open>OverflowError: Python int too large to convert to SQLite INTEGER\<close>

section \<open>SQL fragments used by the queries\<close>

text \<open>
  A Python integer bound to a \<^verbatim>\<open>?\<close> parameter must fit SQLite's signed 64-bit INTEGER;
  the driver raises OverflowError before the statement runs when it does not.
\<close>

definition in_int64 :: "int \<Rightarrow> bool" where
  "in_int64 n = (- 9223372036854775808 \<le> n \<and> n < 9223372036854775808)"

text \<open>The three comparisons that the query builders append to the WHERE clause.\<close>

datatype cond = DateGe string | DateLe string | CategoryEq string

fun cond_holds :: "cond \<Rightarrow> expense \<Rightarrow> bool" where
  "cond_holds (DateGe s) r = (s \<le> e_date r)"
| "cond_holds (DateLe s) r = (e_date r \<le> s)"
| "cond_holds (CategoryEq s) r = (e_category r = s)"

definition sql_where :: "cond list \<Rightarrow> expense list \<Rightarrow> expense list" where
  "sql_where cs rs = filter (\<lambda>r. list_all (\<lambda>c. cond_holds c r) cs) rs"

text \<open>
  ORDER BY under a given "comes no later than" relation. Each row is put in front of the
  first row that may follow it, the rows taken in the order the sorter receives them:
  rows that compare equal come out in the reverse of that order, as they do from
  SQLite's sorter.
\<close>

fun insert_by :: "('a \<Rightarrow> 'a \<Rightarrow> bool) \<Rightarrow> 'a \<Rightarrow> 'a list \<Rightarrow> 'a list" where
  "insert_by le x [] = [x]"
| "insert_by le x (y # ys) = (if le x y then x # y # ys else y # insert_by le x ys)"

definition order_by :: "('a \<Rightarrow> 'a \<Rightarrow> bool) \<Rightarrow> 'a list \<Rightarrow> 'a list" where
  "order_by le xs = foldr (insert_by le) (rev xs) []"

text \<open>\<^verbatim>\<open>ORDER BY date DESC, id DESC\<close>\<close>

definition date_id_desc :: "expense \<Rightarrow> expense \<Rightarrow> bool" where
  "date_id_desc a b = (e_date b < e_date a \<or> (e_date a = e_date b \<and> e_id b \<le> e_id a))"

text \<open>\<^verbatim>\<open>LIMIT ?\<close>: a negative limit means no upper bound in SQLite.\<close>

definition sql_limit :: "int \<Rightarrow> 'a list \<Rightarrow> 'a list" where
  "sql_limit n rs = (if n < 0 then rs else take (nat n) rs)"

text \<open>
  \<^verbatim>\<open>ROUND(SUM(amount), 2)\<close> is computed by SQLite in binary floating point. Its value on the
  rows of a non-empty group is the parameter \<open>round_sum\<close>, applied to the amounts of the
  group listed in rowid order; over no rows SUM, and so the rounded sum, is NULL.
\<close>

definition sql_round_sum :: "(rat list \<Rightarrow> rat) \<Rightarrow> rat list \<Rightarrow> rat option" where
  "sql_round_sum round_sum xs = (if xs = [] then None else Some (round_sum xs))"

text \<open>
  \<^verbatim>\<open>SELECT key AS grp, ROUND(SUM(amount), 2) AS total ... GROUP BY grp\<close>: one output row per
  distinct key, the groups in ascending key order.
\<close>

definition group_totals ::
  "(rat list \<Rightarrow> rat) \<Rightarrow> (expense \<Rightarrow> string) \<Rightarrow> expense list \<Rightarrow> (string \<times> rat) list" where
  "group_totals round_sum key rs =
     map (\<lambda>g. (g, round_sum (map e_amount (filter (\<lambda>r. key r = g) rs))))
         (sort (remdups (map key rs)))"

text \<open>\<^verbatim>\<open>COALESCE(NULLIF(category, ''), 'uncategorized')\<close>\<close>

definition category_label :: "expense \<Rightarrow> string" where
  "category_label r = (if e_category r = [] then ''uncategorized'' else e_category r)"

text \<open>
  \<^verbatim>\<open>substr(date, 1, 7)\<close> takes the first seven characters of the text, not bytes: a
  character is one byte and, when that byte is 0xC0 or more, the continuation bytes
  (0x80 to 0xBF) that follow it.
\<close>

definition continuation_byte :: "char \<Rightarrow> bool" where
  "continuation_byte c = (128 \<le> (of_char c :: nat) \<and> (of_char c :: nat) < 192)"

fun substr_chars :: "nat \<Rightarrow> string \<Rightarrow> string" where
  "substr_chars 0 bs = []"
| "substr_chars (Suc n) [] = []"
| "substr_chars (Suc n) (b # bs) =
     (if 192 \<le> (of_char b :: nat)
      then b # takeWhile continuation_byte bs @ substr_chars n (dropWhile continuation_byte bs)
      else b # substr_chars n bs)"

definition month_label :: "expense \<Rightarrow> string" where
  "month_label r = substr_chars 7 (e_date r)"

text \<open>The assignments of an UPDATE statement.\<close>

datatype assignment = SetAmount rat | SetDate string | SetCategory string | SetNote string

fun assign :: "assignment \<Rightarrow> expense \<Rightarrow> expense" where
  "assign (SetAmount a) r = r\<lparr>e_amount := a\<rparr>"
| "assign (SetDate d) r = r\<lparr>e_date := d\<rparr>"
| "assign (SetCategory c) r = r\<lparr>e_category := c\<rparr>"
| "assign (SetNote n) r = r\<lparr>e_note := n\<rparr>"

text \<open>
  \<^verbatim>\<open>UPDATE expenses SET ... WHERE id = ?\<close>. The statement fails as a whole, changing
  nothing, when a row it rewrites violates the CHECK constraint; otherwise it yields the
  new rows and the number of rows it matched.
\<close>

definition sql_update :: "assignment list \<Rightarrow> int \<Rightarrow> expense list \<Rightarrow> error + (expense list \<times> nat)" where
  "sql_update sets i rs =
     (let rs' = map (\<lambda>r. if e_id r = i then fold assign sets r else r) rs
      in if list_ex (\<lambda>r. e_id r = i \<and> e_amount r < 0) rs' then Inl IntegrityError
         else Inr (rs', length (filter (\<lambda>r. e_id r = i) rs)))"

text \<open>\<^verbatim>\<open>DELETE FROM expenses WHERE id = ?\<close>: the remaining rows and the number removed.\<close>

definition sql_delete :: "int \<Rightarrow> expense list \<Rightarrow> expense list \<times> nat" where
  "sql_delete i rs = (filter (\<lambda>r. e_id r \<noteq> i) rs, length (filter (\<lambda>r. e_id r = i) rs))"

text \<open>
  The id an AUTOINCREMENT key gives the next row: one more than the largest id ever
  used, whether recorded in the sequence or still present in the table.
\<close>

definition next_rowid :: "table \<Rightarrow> int" where
  "next_rowid t = max (t_seq t) (fold max (map e_id (t_rows t)) 0) + 1"

text \<open>Python's \<^verbatim>\<open>x or ""\<close> on an optional string.\<close>

definition or_empty :: "string option \<Rightarrow> string" where
  "or_empty x = (case x of None \<Rightarrow> [] | Some s \<Rightarrow> if s \<noteq> [] then s else [])"

section \<open>The repository operations\<close>

text \<open>
  Every operation takes the database and, when it writes, returns its outcome together
  with the database it leaves behind. A raised exception is an \<open>Inl\<close>; the connection's
  context manager rolls back, so the table is then the one \<^verbatim>\<open>init_db\<close> produced.
\<close>

definition add_expense ::
  "rat \<Rightarrow> string \<Rightarrow> string option \<Rightarrow> string option \<Rightarrow> db \<Rightarrow> (error + unit) \<times> db" where
  "add_expense amount date category note d =
     (let t = contents (init_db d) in
      if amount < 0 then (Inl IntegrityError, Some t)
      else
        let i = next_rowid t;
            r = \<lparr>e_id = i, e_amount = amount, e_date = date,
                 e_category = or_empty category, e_note = or_empty note\<rparr>
        in (Inr (), Some \<lparr>t_rows = t_rows t @ [r], t_seq = i\<rparr>))"

text \<open>
  \<^verbatim>\<open>list_expenses\<close> reads only. The limit is bound to the statement when it is truthy, and
  then has to fit a 64-bit integer.
\<close>

definition list_expenses ::
  "string option \<Rightarrow> string option \<Rightarrow> string option \<Rightarrow> int option \<Rightarrow> db
     \<Rightarrow> error + expense list" where
  "list_expenses start end category limit d =
     (let t = contents (init_db d);
          args = (case start of Some s \<Rightarrow> if s \<noteq> [] then [DateGe s] else [] | None \<Rightarrow> [])
               @ (case end of Some s \<Rightarrow> if s \<noteq> [] then [DateLe s] else [] | None \<Rightarrow> [])
               @ (case category of Some s \<Rightarrow> if s \<noteq> [] then [CategoryEq s] else [] | None \<Rightarrow> []);
          rows = order_by date_id_desc (sql_where args (t_rows t))
      in case limit of
           Some n \<Rightarrow>
             if n \<noteq> 0 then (if in_int64 n then Inr (sql_limit n rows) else Inl OverflowError)
             else Inr rows
         | None \<Rightarrow> Inr rows)"

text \<open>
  \<^verbatim>\<open>update_expense\<close> raises the usage error before it opens the connection; the id is
  bound, and checked for its range, when the statement is executed.
\<close>

definition update_expense ::
  "int \<Rightarrow> rat option \<Rightarrow> string option \<Rightarrow> string option \<Rightarrow> string option \<Rightarrow> db
     \<Rightarrow> (error + unit) \<times> db" where
  "update_expense expense_id amount date category note d =
     (let t = contents (init_db d);
          sets = (case amount of Some a \<Rightarrow> [SetAmount a] | None \<Rightarrow> [])
               @ (case date of Some s \<Rightarrow> [SetDate s] | None \<Rightarrow> [])
               @ (case category of Some s \<Rightarrow> [SetCategory s] | None \<Rightarrow> [])
               @ (case note of Some s \<Rightarrow> [SetNote s] | None \<Rightarrow> [])
      in if sets = [] then (Inl NoFieldsProvided, Some t)
         else if \<not> in_int64 expense_id then (Inl OverflowError, Some t)
         else case sql_update sets expense_id (t_rows t) of
                Inl e \<Rightarrow> (Inl e, Some t)
              | Inr (rs', rowcount) \<Rightarrow>
                  if rowcount = 0 then (Inl (NotFound expense_id), Some t)
                  else (Inr (), Some (t\<lparr>t_rows := rs'\<rparr>)))"

definition delete_expense :: "int \<Rightarrow> db \<Rightarrow> (error + unit) \<times> db" where
  "delete_expense expense_id d =
     (let t = contents (init_db d)
      in if \<not> in_int64 expense_id then (Inl OverflowError, Some t)
         else
           let (rs', rowcount) = sql_delete expense_id (t_rows t)
           in if rowcount = 0 then (Inl (NotFound expense_id), Some t)
              else (Inr (), Some (t\<lparr>t_rows := rs'\<rparr>)))"

section \<open>The aggregation\<close>

text \<open>
  \<^verbatim>\<open>summarize\<close>, with the engine's rounded sum \<open>round_sum\<close> as its first argument. The
  totals of the groups are doubles; they are compared by their exact values.
\<close>

definition summarize ::
  "(rat list \<Rightarrow> rat) \<Rightarrow> string option \<Rightarrow> string option \<Rightarrow> string option \<Rightarrow> string option \<Rightarrow> db
     \<Rightarrow> (string \<times> rat) list" where
  "summarize round_sum start end by category d =
     (let t = contents (init_db d);
          filters = (case start of Some s \<Rightarrow> if s \<noteq> [] then [DateGe s] else [] | None \<Rightarrow> [])
                  @ (case end of Some s \<Rightarrow> if s \<noteq> [] then [DateLe s] else [] | None \<Rightarrow> [])
                  @ (case category of Some s \<Rightarrow> if s \<noteq> [] then [CategoryEq s] else [] | None \<Rightarrow> []);
          matching = sql_where filters (t_rows t)
      in if by = Some ''category'' then
           order_by (\<lambda>a b. snd b \<le> snd a) (group_totals round_sum category_label matching)
         else if by = Some ''month'' then
           order_by (\<lambda>a b. fst b \<le> fst a) (group_totals round_sum month_label matching)
         else
           (let total = sql_round_sum round_sum (map e_amount matching)
            in [(''total'', case total of None \<Rightarrow> 0 | Some v \<Rightarrow> if v \<noteq> 0 then v else 0)]))"

section \<open>Sample databases\<close>

text \<open>
  Three rows, inserted in this order, used to run the operations on concrete data. Their
  amounts, and the sums of any of them, are binary fractions with at most two decimals:
  on them the rounded sum that SQLite computes is the exact sum \<open>sum_list\<close>.
\<close>

definition rent_row :: expense where
  "rent_row = \<lparr>e_id = 1, e_amount = 10, e_date = ''2025-01-01'',
                e_category = [], e_note = []\<rparr>"

definition lunch_row :: expense where
  "lunch_row = \<lparr>e_id = 2, e_amount = 5, e_date = ''2025-01-03'',
                 e_category = ''food'', e_note = ''lunch''\<rparr>"

definition snack_row :: expense where
  "snack_row = \<lparr>e_id = 3, e_amount = 5 / 4, e_date = ''2025-01-02'',
                 e_category = ''food'', e_note = []\<rparr>"

definition example_db :: db where
  "example_db = Some \<lparr>t_rows = [rent_row, lunch_row, snack_row], t_seq = 3\<rparr>"




section \<open>Sessions\<close>

text \<open>
  \<^verbatim>\<open>main\<close> dispatches one command per run on the database file the previous runs left,
  printing any exception instead of propagating it. A session is a sequence of such
  writing commands; \<open>ids_seen\<close> collects the ids present in the table before each command
  and at the end.
\<close>

datatype call =
  Add rat string "string option" "string option"
| Update int "rat option" "string option" "string option" "string option"
| Delete int

fun perform :: "call \<Rightarrow> db \<Rightarrow> db" where
  "perform (Add amount date category note) d = snd (add_expense amount date category note d)"
| "perform (Update i amount date category note) d =
     snd (update_expense i amount date category note d)"
| "perform (Delete i) d = snd (delete_expense i d)"

definition session :: "call list \<Rightarrow> db \<Rightarrow> db" where
  "session cs d = fold perform cs d"

fun ids_seen :: "call list \<Rightarrow> db \<Rightarrow> int list" where
  "ids_seen [] d = map e_id (t_rows (contents d))"
| "ids_seen (c # cs) d = map e_id (t_rows (contents d)) @ ids_seen cs (perform c d)"

text \<open>The sequence bounds every id in the table.\<close>

definition ids_bounded :: "db \<Rightarrow> bool" where
  "ids_bounded d = list_all (\<lambda>r. e_id r \<le> t_seq (contents d)) (t_rows (contents d))"

definition example_calls :: "call list" where
  "example_calls =
     [Add 10 ''2025-01-01'' None None,
      Add 5 ''2025-01-03'' (Some ''food'') (Some ''lunch''),
      Add (5 / 4) ''2025-01-02'' (Some ''food'') None]"

section \<open>Facts about the SQL fragments\<close>

lemmas example_defs = example_db_def rent_row_def lunch_row_def snack_row_def


lemmas query_defs = init_db_def sql_where_def order_by_def date_id_desc_def

lemma contents_init_db: "contents (init_db d) = contents d"
  by (simp add: init_db_def)

lemma mset_insert_by: "mset (insert_by le x xs) = add_mset x (mset xs)"
  by (induction xs) auto

lemma mset_foldr_insert_by: "mset (foldr (insert_by le) xs []) = mset xs"
  by (induction xs) (auto simp: mset_insert_by)

lemma mset_order_by: "mset (order_by le xs) = mset xs"
  by (simp add: order_by_def mset_foldr_insert_by)


lemma length_order_by: "length (order_by le xs) = length xs"
  using mset_order_by [of le xs] by (metis size_mset)

lemma set_insert_by: "set (insert_by le x xs) = insert x (set xs)"
  using mset_insert_by [of le x xs] by (metis set_mset_mset set_mset_add_mset_insert)

lemma sorted_insert_by:
  assumes tot: "\<And>a b. le a b \<or> le b a"
    and tr: "\<And>a b c. le a b \<Longrightarrow> le b c \<Longrightarrow> le a c"
  shows "sorted_wrt le xs \<Longrightarrow> sorted_wrt le (insert_by le x xs)"
proof (induction xs)
  case Nil
  then show ?case by simp
next
  case (Cons y ys)
  show ?case
  proof (cases "le x y")
    case True
    with Cons.prems tr show ?thesis by auto
  next
    case False
    with tot have "le y x" by blast
    with Cons False show ?thesis by (auto simp: set_insert_by)
  qed
qed

lemma sorted_foldr_insert_by:
  assumes tot: "\<And>a b. le a b \<or> le b a"
    and tr: "\<And>a b c. le a b \<Longrightarrow> le b c \<Longrightarrow> le a c"
  shows "sorted_wrt le (foldr (insert_by le) xs [])"
proof (induction xs)
  case Nil
  then show ?case by simp
next
  case (Cons x xs)
  have "foldr (insert_by le) (x # xs) [] = insert_by le x (foldr (insert_by le) xs [])"
    by simp
  moreover have "sorted_wrt le (insert_by le x (foldr (insert_by le) xs []))"
    using tot tr Cons.IH by (rule sorted_insert_by)
  ultimately show ?case by simp
qed

lemma sorted_order_by:
  assumes tot: "\<And>a b. le a b \<or> le b a"
    and tr: "\<And>a b c. le a b \<Longrightarrow> le b c \<Longrightarrow> le a c"
  shows "sorted_wrt le (order_by le xs)"
  unfolding order_by_def using tot tr by (rule sorted_foldr_insert_by)

lemma date_id_desc_total: "date_id_desc a b \<or> date_id_desc b a"
  unfolding date_id_desc_def by (metis linorder_less_linear linorder_le_cases)

lemma date_id_desc_trans: "date_id_desc a b \<Longrightarrow> date_id_desc b c \<Longrightarrow> date_id_desc a c"
  unfolding date_id_desc_def by (metis order.strict_trans order_trans)

lemma sql_update_missing:
  assumes "\<forall>r \<in> set rs. e_id r \<noteq> i"
  shows "sql_update sets i rs = Inr (rs, 0)"
proof -
  from assms have m: "map (\<lambda>r. if e_id r = i then fold assign sets r else r) rs = rs"
    by (induction rs) auto
  from assms have f: "filter (\<lambda>r. e_id r = i) rs = []"
    by (induction rs) auto
  from assms have e: "\<not> list_ex (\<lambda>r. e_id r = i \<and> e_amount r < 0) rs"
    by (auto simp: list_ex_iff)
  show ?thesis unfolding sql_update_def Let_def m using e f by simp
qed

lemma sql_delete_missing:
  assumes "\<forall>r \<in> set rs. e_id r \<noteq> i"
  shows "sql_delete i rs = (rs, 0)"
  using assms unfolding sql_delete_def by (induction rs) auto

lemma list_example_db:
  "list_expenses None None None None example_db = Inr [lunch_row, snack_row, rent_row]"
  by (simp add: list_expenses_def query_defs example_defs)

lemma list_unlimited:
  "list_expenses start end category None d =
     Inr (order_by date_id_desc
       (sql_where
          ((case start of Some s \<Rightarrow> if s \<noteq> [] then [DateGe s] else [] | None \<Rightarrow> [])
         @ (case end of Some s \<Rightarrow> if s \<noteq> [] then [DateLe s] else [] | None \<Rightarrow> [])
         @ (case category of Some s \<Rightarrow> if s \<noteq> [] then [CategoryEq s] else [] | None \<Rightarrow> []))
          (t_rows (contents d))))"
  by (simp add: list_expenses_def contents_init_db)

lemma where_clause_meaning:
  "list_all (\<lambda>c. cond_holds c r)
      ((case start of Some s \<Rightarrow> if s \<noteq> [] then [DateGe s] else [] | None \<Rightarrow> [])
     @ (case end of Some s \<Rightarrow> if s \<noteq> [] then [DateLe s] else [] | None \<Rightarrow> [])
     @ (case category of Some s \<Rightarrow> if s \<noteq> [] then [CategoryEq s] else [] | None \<Rightarrow> []))
   = ((case start of Some s \<Rightarrow> s = [] \<or> s \<le> e_date r | None \<Rightarrow> True)
      \<and> (case end of Some s \<Rightarrow> s = [] \<or> e_date r \<le> s | None \<Rightarrow> True)
      \<and> (case category of Some s \<Rightarrow> s = [] \<or> e_category r = s | None \<Rightarrow> True))"
  by (simp split: option.splits)

lemma fold_assign_id: "e_id (fold assign sets r) = e_id r"
proof (induction sets arbitrary: r)
  case Nil
  then show ?case by simp
next
  case (Cons a sets)
  then show ?case by (cases a) simp_all
qed

lemma fold_assign_fields:
  "e_amount (fold assign ((case amount of Some a \<Rightarrow> [SetAmount a] | None \<Rightarrow> [])
       @ (case date of Some s \<Rightarrow> [SetDate s] | None \<Rightarrow> [])
       @ (case category of Some s \<Rightarrow> [SetCategory s] | None \<Rightarrow> [])
       @ (case note of Some s \<Rightarrow> [SetNote s] | None \<Rightarrow> [])) r) = (case amount of Some a \<Rightarrow> a | None \<Rightarrow> e_amount r)"
  "e_date (fold assign ((case amount of Some a \<Rightarrow> [SetAmount a] | None \<Rightarrow> [])
       @ (case date of Some s \<Rightarrow> [SetDate s] | None \<Rightarrow> [])
       @ (case category of Some s \<Rightarrow> [SetCategory s] | None \<Rightarrow> [])
       @ (case note of Some s \<Rightarrow> [SetNote s] | None \<Rightarrow> [])) r) = (case date of Some s \<Rightarrow> s | None \<Rightarrow> e_date r)"
  "e_category (fold assign ((case amount of Some a \<Rightarrow> [SetAmount a] | None \<Rightarrow> [])
       @ (case date of Some s \<Rightarrow> [SetDate s] | None \<Rightarrow> [])
       @ (case category of Some s \<Rightarrow> [SetCategory s] | None \<Rightarrow> [])
       @ (case note of Some s \<Rightarrow> [SetNote s] | None \<Rightarrow> [])) r) = (case category of Some s \<Rightarrow> s | None \<Rightarrow> e_category r)"
  "e_note (fold assign ((case amount of Some a \<Rightarrow> [SetAmount a] | None \<Rightarrow> [])
       @ (case date of Some s \<Rightarrow> [SetDate s] | None \<Rightarrow> [])
       @ (case category of Some s \<Rightarrow> [SetCategory s] | None \<Rightarrow> [])
       @ (case note of Some s \<Rightarrow> [SetNote s] | None \<Rightarrow> [])) r) = (case note of Some s \<Rightarrow> s | None \<Rightarrow> e_note r)"
  by (simp_all split: option.splits)

lemma assigned_row_frame:
  "e_id (fold assign ((case amount of Some a \<Rightarrow> [SetAmount a] | None \<Rightarrow> [])
       @ (case date of Some s \<Rightarrow> [SetDate s] | None \<Rightarrow> [])
       @ (case category of Some s \<Rightarrow> [SetCategory s] | None \<Rightarrow> [])
       @ (case note of Some s \<Rightarrow> [SetNote s] | None \<Rightarrow> [])) r) = e_id r
   \<and> (amount = None \<longrightarrow> e_amount (fold assign ((case amount of Some a \<Rightarrow> [SetAmount a] | None \<Rightarrow> [])
       @ (case date of Some s \<Rightarrow> [SetDate s] | None \<Rightarrow> [])
       @ (case category of Some s \<Rightarrow> [SetCategory s] | None \<Rightarrow> [])
       @ (case note of Some s \<Rightarrow> [SetNote s] | None \<Rightarrow> [])) r) = e_amount r)
   \<and> (date = None \<longrightarrow> e_date (fold assign ((case amount of Some a \<Rightarrow> [SetAmount a] | None \<Rightarrow> [])
       @ (case date of Some s \<Rightarrow> [SetDate s] | None \<Rightarrow> [])
       @ (case category of Some s \<Rightarrow> [SetCategory s] | None \<Rightarrow> [])
       @ (case note of Some s \<Rightarrow> [SetNote s] | None \<Rightarrow> [])) r) = e_date r)
   \<and> (category = None \<longrightarrow> e_category (fold assign ((case amount of Some a \<Rightarrow> [SetAmount a] | None \<Rightarrow> [])
       @ (case date of Some s \<Rightarrow> [SetDate s] | None \<Rightarrow> [])
       @ (case category of Some s \<Rightarrow> [SetCategory s] | None \<Rightarrow> [])
       @ (case note of Some s \<Rightarrow> [SetNote s] | None \<Rightarrow> [])) r) = e_category r)
   \<and> (note = None \<longrightarrow> e_note (fold assign ((case amount of Some a \<Rightarrow> [SetAmount a] | None \<Rightarrow> [])
       @ (case date of Some s \<Rightarrow> [SetDate s] | None \<Rightarrow> [])
       @ (case category of Some s \<Rightarrow> [SetCategory s] | None \<Rightarrow> [])
       @ (case note of Some s \<Rightarrow> [SetNote s] | None \<Rightarrow> [])) r) = e_note r)"
  by (simp split: option.splits)

lemma assigned_row_values:
  "(\<forall>a. amount = Some a \<longrightarrow> e_amount (fold assign ((case amount of Some a \<Rightarrow> [SetAmount a] | None \<Rightarrow> [])
       @ (case date of Some s \<Rightarrow> [SetDate s] | None \<Rightarrow> [])
       @ (case category of Some s \<Rightarrow> [SetCategory s] | None \<Rightarrow> [])
       @ (case note of Some s \<Rightarrow> [SetNote s] | None \<Rightarrow> [])) r) = a)
   \<and> (\<forall>s. date = Some s \<longrightarrow> e_date (fold assign ((case amount of Some a \<Rightarrow> [SetAmount a] | None \<Rightarrow> [])
       @ (case date of Some s \<Rightarrow> [SetDate s] | None \<Rightarrow> [])
       @ (case category of Some s \<Rightarrow> [SetCategory s] | None \<Rightarrow> [])
       @ (case note of Some s \<Rightarrow> [SetNote s] | None \<Rightarrow> [])) r) = s)
   \<and> (\<forall>s. category = Some s \<longrightarrow> e_category (fold assign ((case amount of Some a \<Rightarrow> [SetAmount a] | None \<Rightarrow> [])
       @ (case date of Some s \<Rightarrow> [SetDate s] | None \<Rightarrow> [])
       @ (case category of Some s \<Rightarrow> [SetCategory s] | None \<Rightarrow> [])
       @ (case note of Some s \<Rightarrow> [SetNote s] | None \<Rightarrow> [])) r) = s)
   \<and> (\<forall>s. note = Some s \<longrightarrow> e_note (fold assign ((case amount of Some a \<Rightarrow> [SetAmount a] | None \<Rightarrow> [])
       @ (case date of Some s \<Rightarrow> [SetDate s] | None \<Rightarrow> [])
       @ (case category of Some s \<Rightarrow> [SetCategory s] | None \<Rightarrow> [])
       @ (case note of Some s \<Rightarrow> [SetNote s] | None \<Rightarrow> [])) r) = s)"
  by (simp split: option.splits)

lemma update_outcomes:
  "(fst (update_expense i amount date category note d) \<noteq> Inr ()
            \<and> snd (update_expense i amount date category note d) = init_db d)
         \<or> (fst (update_expense i amount date category note d) = Inr ()
            \<and> snd (update_expense i amount date category note d) =
                Some ((contents d)\<lparr>t_rows :=
                   map (\<lambda>r. if e_id r = i then fold assign ((case amount of Some a \<Rightarrow> [SetAmount a] | None \<Rightarrow> [])
       @ (case date of Some s \<Rightarrow> [SetDate s] | None \<Rightarrow> [])
       @ (case category of Some s \<Rightarrow> [SetCategory s] | None \<Rightarrow> [])
       @ (case note of Some s \<Rightarrow> [SetNote s] | None \<Rightarrow> [])) r else r) (t_rows (contents d))\<rparr>))"
  unfolding update_expense_def sql_update_def Let_def contents_init_db
  by (simp add: init_db_def)

lemma update_succeeds:
  assumes "\<exists>r \<in> set (t_rows (contents d)). e_id r = i"
    and "amount \<noteq> None \<or> date \<noteq> None \<or> category \<noteq> None \<or> note \<noteq> None"
    and "\<forall>a. amount = Some a \<longrightarrow> 0 \<le> a"
    and "\<forall>r \<in> set (t_rows (contents d)). 0 \<le> e_amount r"
    and rng: "in_int64 i"
  shows "fst (update_expense i amount date category note d) = Inr ()"
proof -
  let ?sets = "(case amount of Some a \<Rightarrow> [SetAmount a] | None \<Rightarrow> [])
               @ (case date of Some s \<Rightarrow> [SetDate s] | None \<Rightarrow> [])
               @ (case category of Some s \<Rightarrow> [SetCategory s] | None \<Rightarrow> [])
               @ (case note of Some s \<Rightarrow> [SetNote s] | None \<Rightarrow> [])"
  from assms(2) have ne: "?sets \<noteq> []" by (auto split: option.splits)
  from assms(1) have cnt: "length (filter (\<lambda>r. e_id r = i) (t_rows (contents d))) \<noteq> 0"
    by (auto simp: filter_empty_conv)
  have "\<forall>r \<in> set (t_rows (contents d)). 0 \<le> e_amount (fold assign ?sets r)"
    using assms(3,4) by (simp add: fold_assign_fields split: option.splits)
  then have chk: "\<not> list_ex (\<lambda>r. e_id r = i \<and> e_amount r < 0)
      (map (\<lambda>r. if e_id r = i then fold assign ?sets r else r) (t_rows (contents d)))"
    using assms(4) by (auto simp: list_ex_iff simp del: fold_append)
  show ?thesis
    unfolding update_expense_def sql_update_def Let_def contents_init_db
    using ne cnt chk rng by simp
qed

lemma fold_max_ge: "(a::int) \<le> fold max xs a \<and> (\<forall>x \<in> set xs. x \<le> fold max xs a)"
proof (induction xs arbitrary: a)
  case Nil
  then show ?case by simp
next
  case (Cons y ys)
  have "max y a \<le> fold max ys (max y a)" and "\<forall>x \<in> set ys. x \<le> fold max ys (max y a)"
    using Cons.IH [of "max y a"] by simp_all
  then show ?case by auto
qed

lemma next_rowid_fresh:
  "t_seq t < next_rowid t" "r \<in> set (t_rows t) \<Longrightarrow> e_id r < next_rowid t"
proof -
  show "t_seq t < next_rowid t" by (simp add: next_rowid_def)
  assume "r \<in> set (t_rows t)"
  then have "e_id r \<le> fold max (map e_id (t_rows t)) 0"
    using fold_max_ge [of 0 "map e_id (t_rows t)"] by simp
  then show "e_id r < next_rowid t" by (simp add: next_rowid_def)
qed

lemma add_outcome:
  "0 \<le> amount \<Longrightarrow> add_expense amount date category note d =
     (Inr (), Some \<lparr>t_rows = t_rows (contents d) @
         [\<lparr>e_id = next_rowid (contents d), e_amount = amount, e_date = date,
           e_category = or_empty category, e_note = or_empty note\<rparr>],
       t_seq = next_rowid (contents d)\<rparr>)"
  "amount < 0 \<Longrightarrow> add_expense amount date category note d = (Inl IntegrityError, init_db d)"
  by (simp_all add: add_expense_def contents_init_db Let_def init_db_def)

lemma or_empty_value: "or_empty x = (case x of Some s \<Rightarrow> s | None \<Rightarrow> [])"
  by (simp add: or_empty_def split: option.splits)

lemma perform_keeps_bound:
  assumes "ids_bounded d"
  shows "ids_bounded (perform c d) \<and> t_seq (contents d) \<le> t_seq (contents (perform c d))"
proof (cases c)
  case (Add amount date category n)
  show ?thesis
  proof (cases "0 \<le> amount")
    case True
    have "e_id r \<le> next_rowid (contents d)" if "r \<in> set (t_rows (contents d))" for r
      using next_rowid_fresh(2) [OF that] by simp
    moreover have "t_seq (contents d) \<le> next_rowid (contents d)"
      using next_rowid_fresh(1) [of "contents d"] by simp
    ultimately show ?thesis
      unfolding Add perform.simps add_outcome(1) [OF True]
      by (simp add: ids_bounded_def list_all_iff)
  next
    case False
    then have "amount < 0" by simp
    then show ?thesis
      unfolding Add perform.simps using assms
      by (simp add: add_outcome(2) ids_bounded_def contents_init_db)
  qed
next
  case (Update i amount date category n)
  from update_outcomes [of i amount date category n d] assms show ?thesis
    unfolding Update perform.simps
    by (auto simp: ids_bounded_def contents_init_db list_all_iff fold_assign_id
             simp del: fold_append)
next
  case (Delete i)
  from assms show ?thesis
    unfolding Delete perform.simps
    by (auto simp: delete_expense_def sql_delete_def ids_bounded_def contents_init_db
                   list_all_iff Let_def)
qed

lemma session_keeps_bound:
  "ids_bounded d \<Longrightarrow>
     ids_bounded (session cs d)
     \<and> t_seq (contents d) \<le> t_seq (contents (session cs d))
     \<and> (\<forall>j \<in> set (ids_seen cs d). j \<le> t_seq (contents (session cs d)))"
proof (induction cs arbitrary: d)
  case Nil
  then show ?case by (simp add: session_def ids_bounded_def list_all_iff)
next
  case (Cons c cs)
  from Cons.prems have p: "ids_bounded (perform c d)"
    and m: "t_seq (contents d) \<le> t_seq (contents (perform c d))"
    using perform_keeps_bound [of d c] by simp_all
  from Cons.IH [OF p] have ih1: "ids_bounded (session cs (perform c d))"
    and ih2: "t_seq (contents (perform c d)) \<le> t_seq (contents (session cs (perform c d)))"
    and ih3: "\<forall>j \<in> set (ids_seen cs (perform c d)). j \<le> t_seq (contents (session cs (perform c d)))"
    by simp_all
  have s: "session (c # cs) d = session cs (perform c d)"
    by (simp add: session_def)
  from Cons.prems have "\<forall>r \<in> set (t_rows (contents d)). e_id r \<le> t_seq (contents d)"
    by (simp add: ids_bounded_def list_all_iff)
  with m ih2 have "\<forall>r \<in> set (t_rows (contents d)).
      e_id r \<le> t_seq (contents (session cs (perform c d)))"
    by fastforce
  with ih1 ih2 ih3 m show ?case unfolding s by auto
qed






lemma next_rowid_example: "next_rowid (contents example_db) = 4"
  by (simp add: next_rowid_def example_defs)

lemma session_step1: "perform (Add 10 ''2025-01-01'' None None) None
    = Some \<lparr>t_rows = [rent_row], t_seq = 1\<rparr>"
  by (simp add: add_expense_def init_db_def empty_table_def next_rowid_def or_empty_def
        rent_row_def)

lemma session_step2:
  "perform (Add 5 ''2025-01-03'' (Some ''food'') (Some ''lunch''))
      (Some \<lparr>t_rows = [rent_row], t_seq = 1\<rparr>)
    = Some \<lparr>t_rows = [rent_row, lunch_row], t_seq = 2\<rparr>"
  by (simp add: add_expense_def init_db_def next_rowid_def or_empty_def
        rent_row_def lunch_row_def)

lemma session_step3:
  "perform (Add (5 / 4) ''2025-01-02'' (Some ''food'') None)
      (Some \<lparr>t_rows = [rent_row, lunch_row], t_seq = 2\<rparr>)
    = example_db"
  by (simp add: add_expense_def init_db_def next_rowid_def or_empty_def example_defs)

lemma session_example: "session example_calls None = example_db"
  unfolding session_def example_calls_def fold_simps o_apply
  by (simp only: session_step1 session_step2 session_step3)

lemma ids_seen_example: "ids_seen example_calls None = [1, 1, 2, 1, 2, 3]"
  unfolding example_calls_def ids_seen.simps session_step1 session_step2 session_step3
  by (simp add: empty_table_def example_defs)



section \<open>Filters given as the empty string\<close>

text \<open>
  C10. An empty string passed as \<open>start\<close> or as \<open>end\<close> is falsy in the guards of
  \<^verbatim>\<open>list_expenses\<close> and \<^verbatim>\<open>summarize\<close>: both functions return what they return when that
  argument is absent, whatever the other arguments and the database are.
\<close>

theorem empty_date_bound_is_no_filter:
  "list_expenses (Some []) end category limit d = list_expenses None end category limit d
   \<and> list_expenses start (Some []) category limit d = list_expenses start None category limit d
   \<and> summarize round_sum (Some []) end by category d = summarize round_sum None end by category d
   \<and> summarize round_sum start (Some []) by category d
       = summarize round_sum start None by category d"
  by (simp add: list_expenses_def summarize_def)

theorem empty_date_bound_is_no_filter_witness:
  "list_expenses (Some []) (Some ''2025-01-02'') None None example_db = Inr [snack_row, rent_row]
   \<and> list_expenses None (Some ''2025-01-02'') None None example_db = Inr [snack_row, rent_row]
   \<and> list_expenses (Some ''2025-01-02'') (Some []) None None example_db
       = Inr [lunch_row, snack_row]
   \<and> list_expenses (Some ''2025-01-02'') None None None example_db = Inr [lunch_row, snack_row]"
  using empty_date_bound_is_no_filter
    [of "Some ''2025-01-02''" None None example_db "Some ''2025-01-02''" sum_list None]
  by (simp add: list_expenses_def query_defs example_defs)

text \<open>
  C1, as amended. An empty string passed as \<open>category\<close> is falsy in the same guards, so it
  is the absence of a category filter: \<^verbatim>\<open>list_expenses\<close> and \<^verbatim>\<open>summarize\<close> return what
  they return without a category, rows of every category included.
\<close>

theorem empty_category_is_no_filter:
  "list_expenses start end (Some []) limit d = list_expenses start end None limit d
   \<and> summarize round_sum start end by (Some []) d = summarize round_sum start end by None d"
  by (simp add: list_expenses_def summarize_def)

theorem empty_category_is_no_filter_witness:
  "list_expenses None None (Some []) None example_db = Inr [lunch_row, snack_row, rent_row]
   \<and> summarize sum_list None None None (Some []) example_db
       = summarize sum_list None None None None example_db"
  using empty_category_is_no_filter [of None None None example_db sum_list None]
  by (simp add: list_example_db)

text \<open>
  C1 as stated fails: asked for the empty category, \<^verbatim>\<open>list_expenses\<close> on the sample
  database returns the lunch row, whose category is "food".
\<close>

theorem empty_category_filter_counterexample:
  "list_expenses None None (Some []) None example_db = Inr [lunch_row, snack_row, rent_row]
   \<and> e_category lunch_row \<noteq> []"
  by (simp add: list_expenses_def query_defs example_defs)

section \<open>The row limit\<close>

text \<open>
  C2, as amended. Without a limit \<^verbatim>\<open>list_expenses\<close> returns the whole ordered result. For
  a limit \<open>n\<close> with \<open>0 < n < 2^63\<close> it returns the first \<open>n\<close> rows of that result, hence at
  most \<open>n\<close> rows. A limit of zero is falsy and adds no LIMIT clause, and a negative LIMIT
  is no bound in SQLite: for \<open>- 2^63 \<le> n \<le> 0\<close> the whole result is returned. A limit
  outside the signed 64-bit range cannot be bound and raises OverflowError.
\<close>

theorem limit_takes_first_rows:
  "\<exists>rows. list_expenses start end category None d = Inr rows
     \<and> (0 < n \<and> n < 9223372036854775808 \<longrightarrow>
          list_expenses start end category (Some n) d = Inr (take (nat n) rows)
          \<and> int (length (take (nat n) rows)) \<le> n)
     \<and> (- 9223372036854775808 \<le> n \<and> n \<le> 0 \<longrightarrow>
          list_expenses start end category (Some n) d = Inr rows)
     \<and> (n < - 9223372036854775808 \<or> 9223372036854775808 \<le> n \<longrightarrow>
          list_expenses start end category (Some n) d = Inl OverflowError)"
  by (auto simp: list_expenses_def sql_limit_def in_int64_def Let_def)

theorem limit_takes_first_rows_witness:
  "list_expenses None None None (Some 2) example_db = Inr [lunch_row, snack_row]
   \<and> list_expenses None None None (Some 0) example_db = Inr [lunch_row, snack_row, rent_row]
   \<and> list_expenses None None None (Some (- 1)) example_db = Inr [lunch_row, snack_row, rent_row]
   \<and> list_expenses None None None (Some 9223372036854775808) example_db = Inl OverflowError"
  using limit_takes_first_rows [of None None None example_db 2]
    limit_takes_first_rows [of None None None example_db 0]
    limit_takes_first_rows [of None None None example_db "- 1"]
    limit_takes_first_rows [of None None None example_db 9223372036854775808]
  by (simp add: list_example_db)

text \<open>
  C2 as stated fails at the limit 0: the sample database gives three rows, not at most
  zero.
\<close>

theorem zero_limit_counterexample:
  "list_expenses None None None (Some 0) example_db = Inr [lunch_row, snack_row, rent_row]
   \<and> \<not> int (length [lunch_row, snack_row, rent_row]) \<le> 0"
  by (simp add: list_expenses_def query_defs example_defs)

section \<open>Errors of update and delete\<close>

text \<open>
  C6. Whatever the id, and whether or not a row has it, \<^verbatim>\<open>update_expense\<close> with no field
  supplied raises the "no fields provided" error, and the database it leaves is the one
  \<^verbatim>\<open>init_db\<close> made, with the table's rows and sequence as they were.
\<close>

theorem update_without_fields_is_usage_error:
  "update_expense i None None None None d = (Inl NoFieldsProvided, init_db d)
   \<and> contents (init_db d) = contents d"
  by (simp add: update_expense_def init_db_def)

theorem update_without_fields_is_usage_error_witness:
  "update_expense 2 None None None None example_db = (Inl NoFieldsProvided, example_db)
   \<and> update_expense 99 None None None None None = (Inl NoFieldsProvided, Some empty_table)
   \<and> update_expense 9223372036854775808 None None None None example_db
       = (Inl NoFieldsProvided, example_db)"
  using update_without_fields_is_usage_error [of 2 example_db]
    update_without_fields_is_usage_error [of 99 None]
    update_without_fields_is_usage_error [of 9223372036854775808 example_db]
  by (simp add: init_db_def example_db_def)

text \<open>
  C7, as amended. When no row has the id and the id is in the signed 64-bit range,
  \<^verbatim>\<open>update_expense\<close> with at least one field supplied and \<^verbatim>\<open>delete_expense\<close> both raise the
  not-found error for that id. When the id is outside that range it cannot be bound to
  the statement, and both raise OverflowError instead. In every case the table is left as
  it was.
\<close>

theorem missing_id_is_not_found:
  assumes "\<forall>r \<in> set (t_rows (contents d)). e_id r \<noteq> i"
  shows "(- 9223372036854775808 \<le> i \<and> i < 9223372036854775808 \<longrightarrow>
            (amount \<noteq> None \<or> date \<noteq> None \<or> category \<noteq> None \<or> note \<noteq> None \<longrightarrow>
               update_expense i amount date category note d = (Inl (NotFound i), init_db d))
            \<and> delete_expense i d = (Inl (NotFound i), init_db d))
         \<and> (i < - 9223372036854775808 \<or> 9223372036854775808 \<le> i \<longrightarrow>
            (amount \<noteq> None \<or> date \<noteq> None \<or> category \<noteq> None \<or> note \<noteq> None \<longrightarrow>
               update_expense i amount date category note d = (Inl OverflowError, init_db d))
            \<and> delete_expense i d = (Inl OverflowError, init_db d))
         \<and> contents (init_db d) = contents d"
proof -
  have c: "contents (init_db d) = contents d" by (rule contents_init_db)
  have u: "sql_update sets i (t_rows (contents d)) = Inr (t_rows (contents d), 0)" for sets
    using assms by (rule sql_update_missing)
  have dl: "sql_delete i (t_rows (contents d)) = (t_rows (contents d), 0)"
    using assms by (rule sql_delete_missing)
  have r: "in_int64 i = (- 9223372036854775808 \<le> i \<and> i < 9223372036854775808)"
    by (simp add: in_int64_def)
  have un: "update_expense i amount date category note d = (Inl (NotFound i), init_db d)"
    if "in_int64 i" "amount \<noteq> None \<or> date \<noteq> None \<or> category \<noteq> None \<or> note \<noteq> None"
    using that unfolding update_expense_def Let_def c u
    by (auto simp: init_db_def split: option.splits)
  have uo: "update_expense i amount date category note d = (Inl OverflowError, init_db d)"
    if "\<not> in_int64 i" "amount \<noteq> None \<or> date \<noteq> None \<or> category \<noteq> None \<or> note \<noteq> None"
    using that unfolding update_expense_def Let_def c u
    by (auto simp: init_db_def split: option.splits)
  have dn: "delete_expense i d = (Inl (NotFound i), init_db d)" if "in_int64 i"
    using that unfolding delete_expense_def Let_def c dl by (simp add: init_db_def)
  have do: "delete_expense i d = (Inl OverflowError, init_db d)" if "\<not> in_int64 i"
    using that unfolding delete_expense_def Let_def c by (simp add: init_db_def)
  from un uo dn do c show ?thesis unfolding r by auto
qed

theorem missing_id_is_not_found_witness:
  "7 \<notin> set (map e_id (t_rows (contents example_db)))
   \<and> update_expense 7 (Some 3) None None None example_db = (Inl (NotFound 7), example_db)
   \<and> update_expense 7 None None (Some ''fun'') None example_db = (Inl (NotFound 7), example_db)
   \<and> delete_expense 7 example_db = (Inl (NotFound 7), example_db)"
proof -
  have h: "\<forall>r \<in> set (t_rows (contents example_db)). e_id r \<noteq> 7"
    by (simp add: example_defs)
  show ?thesis
    using h missing_id_is_not_found [OF h, of "Some 3" None None None]
      missing_id_is_not_found [OF h, of None None "Some ''fun''" None]
    by (simp add: init_db_def example_db_def)
qed

text \<open>
  C7 as stated fails for an id that no row has and that is too large for SQLite: on the
  sample database the id \<open>2^63\<close> makes \<^verbatim>\<open>delete_expense\<close> and \<^verbatim>\<open>update_expense\<close> raise
  OverflowError, not the not-found error.
\<close>

theorem out_of_range_id_counterexample:
  "9223372036854775808 \<notin> set (map e_id (t_rows (contents example_db)))
   \<and> delete_expense 9223372036854775808 example_db = (Inl OverflowError, example_db)
   \<and> update_expense 9223372036854775808 (Some 3) None None None example_db
       = (Inl OverflowError, example_db)"
  by (simp add: delete_expense_def update_expense_def in_int64_def init_db_def example_defs)

section \<open>Totals\<close>




section \<open>Listing\<close>

text \<open>
  C4, as amended. Without a limit, \<^verbatim>\<open>list_expenses\<close> returns exactly the rows of the table,
  each as often as the table holds it, that satisfy every filter supplied as a non-empty
  string (date at or after \<open>start\<close>, date at or before \<open>end\<close>, category equal to
  \<open>category\<close>); a filter that is absent or the empty string excludes no row. The rows come
  by date descending, then by id descending.
\<close>

theorem list_filters_and_order:
  "\<exists>rows. list_expenses start end category None d = Inr rows
     \<and> mset rows =
       mset (filter (\<lambda>r. (case start of Some s \<Rightarrow> s = [] \<or> s \<le> e_date r | None \<Rightarrow> True)
                     \<and> (case end of Some s \<Rightarrow> s = [] \<or> e_date r \<le> s | None \<Rightarrow> True)
                     \<and> (case category of Some s \<Rightarrow> s = [] \<or> e_category r = s | None \<Rightarrow> True))
                  (t_rows (contents d)))
     \<and> sorted_wrt (\<lambda>a b. e_date b < e_date a \<or> (e_date a = e_date b \<and> e_id b \<le> e_id a)) rows"
proof -
  let ?rows = "order_by date_id_desc
       (sql_where
          ((case start of Some s \<Rightarrow> if s \<noteq> [] then [DateGe s] else [] | None \<Rightarrow> [])
         @ (case end of Some s \<Rightarrow> if s \<noteq> [] then [DateLe s] else [] | None \<Rightarrow> [])
         @ (case category of Some s \<Rightarrow> if s \<noteq> [] then [CategoryEq s] else [] | None \<Rightarrow> []))
          (t_rows (contents d)))"
  have l: "list_expenses start end category None d = Inr ?rows"
    by (rule list_unlimited)
  have "sorted_wrt date_id_desc ?rows"
    using date_id_desc_total date_id_desc_trans by (rule sorted_order_by)
  then have s: "sorted_wrt (\<lambda>a b. e_date b < e_date a \<or> (e_date a = e_date b \<and> e_id b \<le> e_id a))
        ?rows"
    by (simp add: date_id_desc_def [abs_def])
  have m: "mset ?rows =
     mset (filter (\<lambda>r. (case start of Some s \<Rightarrow> s = [] \<or> s \<le> e_date r | None \<Rightarrow> True)
                     \<and> (case end of Some s \<Rightarrow> s = [] \<or> e_date r \<le> s | None \<Rightarrow> True)
                     \<and> (case category of Some s \<Rightarrow> s = [] \<or> e_category r = s | None \<Rightarrow> True))
                  (t_rows (contents d)))"
    by (simp only: mset_order_by sql_where_def where_clause_meaning)
  from l m s show ?thesis by blast
qed

theorem list_filters_and_order_witness:
  "list_expenses (Some ''2025-01-02'') None (Some ''food'') None example_db
     = Inr [lunch_row, snack_row]
   \<and> mset [lunch_row, snack_row] = mset (filter (\<lambda>r. ''2025-01-02'' \<le> e_date r \<and> e_category r = ''food'')
        [rent_row, lunch_row, snack_row])
   \<and> sorted_wrt (\<lambda>a b. e_date b < e_date a \<or> (e_date a = e_date b \<and> e_id b \<le> e_id a))
        [lunch_row, snack_row]"
proof -
  have l: "list_expenses (Some ''2025-01-02'') None (Some ''food'') None example_db
      = Inr [lunch_row, snack_row]"
    by (simp add: list_expenses_def query_defs example_defs)
  show ?thesis
    using list_filters_and_order [of "Some ''2025-01-02''" None "Some ''food''" example_db]
    unfolding l by (simp add: example_db_def)
qed

text \<open>
  C4 as stated fails when a filter is supplied as the empty string: asked for the dates
  from 2025-01-02 to 2025-01-03 and the empty category, \<^verbatim>\<open>list_expenses\<close> returns the two
  rows of the sample database in that range, both of category "food".
\<close>

theorem supplied_empty_category_counterexample:
  "list_expenses (Some ''2025-01-02'') (Some ''2025-01-03'') (Some []) None example_db
     = Inr [lunch_row, snack_row]
   \<and> e_category lunch_row \<noteq> []"
  by (simp add: list_expenses_def query_defs example_defs)

section \<open>Adding\<close>

text \<open>
  C3. For a non-negative amount, \<^verbatim>\<open>add_expense\<close> succeeds and the unfiltered listing
  afterwards is the listing before plus one row that carries the four values as given
  (an absent category or note is stored as the empty string) under a new id. The new id
  is larger than every id in the table, and larger than every id the table has held at
  any moment of the session that produced the database from an empty file.
\<close>

theorem add_then_list_round_trip:
  assumes "0 \<le> amount"
  shows "fst (add_expense amount date category note d) = Inr ()
    \<and> (\<exists>before after.
          list_expenses None None None None d = Inr before
          \<and> list_expenses None None None None (snd (add_expense amount date category note d))
              = Inr after
          \<and> mset after
              = add_mset \<lparr>e_id = next_rowid (contents d), e_amount = amount, e_date = date,
                           e_category = (case category of Some c \<Rightarrow> c | None \<Rightarrow> []),
                           e_note = (case note of Some n \<Rightarrow> n | None \<Rightarrow> [])\<rparr>
                  (mset before))
    \<and> (\<forall>r \<in> set (t_rows (contents d)). e_id r < next_rowid (contents d))
    \<and> (\<forall>cs. d = session cs None \<longrightarrow>
          (\<forall>j \<in> set (ids_seen cs None). j < next_rowid (contents d)))"
proof -
  note out = add_outcome(1) [OF assms, of date category "note" d]
  have l: "list_expenses None None None None x = Inr (order_by date_id_desc (t_rows (contents x)))" for x
    by (simp add: list_expenses_def contents_init_db sql_where_def)
  have a: "fst (add_expense amount date category note d) = Inr ()"
    unfolding out by simp
  have "mset (order_by date_id_desc
            (t_rows (contents (snd (add_expense amount date category note d)))))
        = add_mset \<lparr>e_id = next_rowid (contents d), e_amount = amount, e_date = date,
                     e_category = (case category of Some c \<Rightarrow> c | None \<Rightarrow> []),
                     e_note = (case note of Some n \<Rightarrow> n | None \<Rightarrow> [])\<rparr>
            (mset (order_by date_id_desc (t_rows (contents d))))"
    unfolding out by (simp add: mset_order_by or_empty_value)
  with l have b: "\<exists>before after.
          list_expenses None None None None d = Inr before
          \<and> list_expenses None None None None (snd (add_expense amount date category note d))
              = Inr after
          \<and> mset after
              = add_mset \<lparr>e_id = next_rowid (contents d), e_amount = amount, e_date = date,
                           e_category = (case category of Some c \<Rightarrow> c | None \<Rightarrow> []),
                           e_note = (case note of Some n \<Rightarrow> n | None \<Rightarrow> [])\<rparr>
                  (mset before)"
    by blast
  have c: "\<forall>r \<in> set (t_rows (contents d)). e_id r < next_rowid (contents d)"
    using next_rowid_fresh(2) by blast
  have e: "\<forall>j \<in> set (ids_seen cs None). j < next_rowid (contents d)" if "d = session cs None" for cs
  proof -
    have "ids_bounded None" by (simp add: ids_bounded_def empty_table_def)
    then have "\<forall>j \<in> set (ids_seen cs None). j \<le> t_seq (contents (session cs None))"
      using session_keeps_bound [of None cs] by simp
    moreover have "t_seq (contents d) < next_rowid (contents d)"
      by (rule next_rowid_fresh(1))
    ultimately show ?thesis unfolding that by fastforce
  qed
  from a b c e show ?thesis by blast
qed

theorem add_then_list_round_trip_witness:
  "(0::rat) \<le> 9 / 2
   \<and> add_expense (9 / 2) ''2025-02-01'' (Some ''travel'') None example_db
       = (Inr (), Some \<lparr>t_rows = [rent_row, lunch_row, snack_row,
              \<lparr>e_id = 4, e_amount = 9 / 2, e_date = ''2025-02-01'',
               e_category = ''travel'', e_note = []\<rparr>], t_seq = 4\<rparr>)
   \<and> list_expenses None None None None
        (snd (add_expense (9 / 2) ''2025-02-01'' (Some ''travel'') None example_db))
       = Inr [\<lparr>e_id = 4, e_amount = 9 / 2, e_date = ''2025-02-01'',
                e_category = ''travel'', e_note = []\<rparr>, lunch_row, snack_row, rent_row]
   \<and> example_db = session example_calls None
   \<and> ids_seen example_calls None = [1, 1, 2, 1, 2, 3]
   \<and> list_all (\<lambda>j. j < 4) (ids_seen example_calls None)"
proof -
  have h: "(0::rat) \<le> 9 / 2" by simp
  note t = add_then_list_round_trip [OF h, of "''2025-02-01''" "Some ''travel''" None example_db]
  have a: "add_expense (9 / 2) ''2025-02-01'' (Some ''travel'') None example_db
       = (Inr (), Some \<lparr>t_rows = [rent_row, lunch_row, snack_row,
              \<lparr>e_id = 4, e_amount = 9 / 2, e_date = ''2025-02-01'',
               e_category = ''travel'', e_note = []\<rparr>], t_seq = 4\<rparr>)"
    by (simp add: add_expense_def init_db_def next_rowid_def or_empty_def example_defs)
  have b: "list_expenses None None None None
        (snd (add_expense (9 / 2) ''2025-02-01'' (Some ''travel'') None example_db))
       = Inr [\<lparr>e_id = 4, e_amount = 9 / 2, e_date = ''2025-02-01'',
                e_category = ''travel'', e_note = []\<rparr>, lunch_row, snack_row, rent_row]"
    unfolding a by (simp add: list_expenses_def query_defs example_defs)
  have s: "example_db = session example_calls None"
    by (simp only: session_example)
  have "\<forall>j \<in> set (ids_seen example_calls None). j < next_rowid (contents example_db)"
    using t [THEN conjunct2, THEN conjunct2, THEN conjunct2, rule_format, of example_calls] s
    by blast
  then have c: "list_all (\<lambda>j. j < 4) (ids_seen example_calls None)"
    by (simp only: list_all_iff next_rowid_example)
  from h a b s ids_seen_example c show ?thesis by (intro conjI)
qed

section \<open>Updating\<close>

text \<open>
  C5. \<^verbatim>\<open>update_expense\<close> keeps the number and order of the rows and the sequence. Every
  row keeps its id, every row with another id is unchanged, and a field that is not
  supplied keeps its value in every row. When the call succeeds, each supplied field of
  the row with the given id has the supplied value; and the call succeeds when a row has
  the id, a field is supplied, a supplied amount is not negative and the stored rows
  satisfy the table's CHECK constraint and have 64-bit ids.
\<close>

theorem update_changes_only_supplied_fields:
  "let before = t_rows (contents d);
       outcome = update_expense i amount date category note d;
       after = t_rows (contents (snd outcome))
   in length after = length before
      \<and> t_seq (contents (snd outcome)) = t_seq (contents d)
      \<and> (\<forall>k < length before.
            e_id (after ! k) = e_id (before ! k)
            \<and> (e_id (before ! k) \<noteq> i \<longrightarrow> after ! k = before ! k)
            \<and> (amount = None \<longrightarrow> e_amount (after ! k) = e_amount (before ! k))
            \<and> (date = None \<longrightarrow> e_date (after ! k) = e_date (before ! k))
            \<and> (category = None \<longrightarrow> e_category (after ! k) = e_category (before ! k))
            \<and> (note = None \<longrightarrow> e_note (after ! k) = e_note (before ! k)))
      \<and> (fst outcome = Inr () \<longrightarrow>
            (\<forall>k < length before. e_id (before ! k) = i \<longrightarrow>
               (\<forall>a. amount = Some a \<longrightarrow> e_amount (after ! k) = a)
               \<and> (\<forall>s. date = Some s \<longrightarrow> e_date (after ! k) = s)
               \<and> (\<forall>s. category = Some s \<longrightarrow> e_category (after ! k) = s)
               \<and> (\<forall>s. note = Some s \<longrightarrow> e_note (after ! k) = s)))
      \<and> ((\<exists>r \<in> set before. e_id r = i)
           \<and> (amount \<noteq> None \<or> date \<noteq> None \<or> category \<noteq> None \<or> note \<noteq> None)
           \<and> (\<forall>a. amount = Some a \<longrightarrow> 0 \<le> a)
           \<and> (\<forall>r \<in> set before. 0 \<le> e_amount r
                 \<and> - 9223372036854775808 \<le> e_id r \<and> e_id r < 9223372036854775808)
          \<longrightarrow> fst outcome = Inr ())"
proof -
  let ?sets = "(case amount of Some a \<Rightarrow> [SetAmount a] | None \<Rightarrow> [])
               @ (case date of Some s \<Rightarrow> [SetDate s] | None \<Rightarrow> [])
               @ (case category of Some s \<Rightarrow> [SetCategory s] | None \<Rightarrow> [])
               @ (case note of Some s \<Rightarrow> [SetNote s] | None \<Rightarrow> [])"
  let ?before = "t_rows (contents d)"
  let ?out = "update_expense i amount date category note d"
  let ?after = "t_rows (contents (snd ?out))"
  let ?new = "map (\<lambda>r. if e_id r = i then fold assign ?sets r else r) ?before"
  have cases: "(fst ?out \<noteq> Inr () \<and> snd ?out = init_db d)
      \<or> (fst ?out = Inr () \<and> snd ?out = Some ((contents d)\<lparr>t_rows := ?new\<rparr>))"
    by (rule update_outcomes)
  then have rows: "?after = ?before \<or> ?after = ?new"
    by (auto simp: contents_init_db)
  from cases have ok: "fst ?out = Inr () \<Longrightarrow> ?after = ?new"
    by auto
  from cases have seq: "t_seq (contents (snd ?out)) = t_seq (contents d)"
    by (auto simp: contents_init_db)
  from rows have len: "length ?after = length ?before"
    by auto
  have frame: "e_id (?after ! k) = e_id (?before ! k)
            \<and> (e_id (?before ! k) \<noteq> i \<longrightarrow> ?after ! k = ?before ! k)
            \<and> (amount = None \<longrightarrow> e_amount (?after ! k) = e_amount (?before ! k))
            \<and> (date = None \<longrightarrow> e_date (?after ! k) = e_date (?before ! k))
            \<and> (category = None \<longrightarrow> e_category (?after ! k) = e_category (?before ! k))
            \<and> (note = None \<longrightarrow> e_note (?after ! k) = e_note (?before ! k))"
    if "k < length ?before" for k
  proof -
    from rows show ?thesis
    proof
      assume b: "?after = ?before"
      show ?thesis unfolding b by simp
    next
      assume a: "?after = ?new"
      have n: "?new ! k = (if e_id (?before ! k) = i then fold assign ?sets (?before ! k) else ?before ! k)"
        using that by simp
      show ?thesis
      proof (cases "e_id (?before ! k) = i")
        case True
        with n have e: "?new ! k = fold assign ?sets (?before ! k)"
          by (simp only: if_True simp_thms)
        show ?thesis unfolding a e
          using True assigned_row_frame [of amount date category "note" "?before ! k"]
          by blast
      next
        case False
        with n have e: "?new ! k = ?before ! k"
          by (simp only: if_False simp_thms)
        show ?thesis unfolding a e by blast
      qed
    qed
  qed
  have changed: "(\<forall>a. amount = Some a \<longrightarrow> e_amount (?after ! k) = a)
               \<and> (\<forall>s. date = Some s \<longrightarrow> e_date (?after ! k) = s)
               \<and> (\<forall>s. category = Some s \<longrightarrow> e_category (?after ! k) = s)
               \<and> (\<forall>s. note = Some s \<longrightarrow> e_note (?after ! k) = s)"
    if "fst ?out = Inr ()" and "k < length ?before" and "e_id (?before ! k) = i" for k
  proof -
    have a: "?after = ?new" using that(1) by (rule ok)
    have "?new ! k = (if e_id (?before ! k) = i then fold assign ?sets (?before ! k) else ?before ! k)"
      using that(2) by simp
    with that(3) have e: "?new ! k = fold assign ?sets (?before ! k)"
      by (simp only: if_True simp_thms)
    show ?thesis unfolding a e
      by (rule assigned_row_values)
  qed
  have succ: "fst ?out = Inr ()"
    if "(\<exists>r \<in> set ?before. e_id r = i)
           \<and> (amount \<noteq> None \<or> date \<noteq> None \<or> category \<noteq> None \<or> note \<noteq> None)
           \<and> (\<forall>a. amount = Some a \<longrightarrow> 0 \<le> a)
           \<and> (\<forall>r \<in> set ?before. 0 \<le> e_amount r
                 \<and> - 9223372036854775808 \<le> e_id r \<and> e_id r < 9223372036854775808)"
  proof -
    from that have "in_int64 i" unfolding in_int64_def by blast
    with that show ?thesis by (intro update_succeeds) blast+
  qed
  show ?thesis
    unfolding Let_def
    using len seq frame changed succ by blast
qed

theorem update_changes_only_supplied_fields_witness:
  "update_expense 2 (Some 7) None None (Some ''dinner'') example_db =
     (Inr (), Some \<lparr>t_rows = [rent_row, lunch_row\<lparr>e_amount := 7, e_note := ''dinner''\<rparr>, snack_row],
                     t_seq = 3\<rparr>)
   \<and> e_date (t_rows (contents (snd (update_expense 2 (Some 7) None None (Some ''dinner'') example_db))) ! 1)
       = ''2025-01-03''
   \<and> e_category (t_rows (contents (snd (update_expense 2 (Some 7) None None (Some ''dinner'') example_db))) ! 1)
       = ''food''"
proof -
  have v: "update_expense 2 (Some 7) None None (Some ''dinner'') example_db =
     (Inr (), Some \<lparr>t_rows = [rent_row, lunch_row\<lparr>e_amount := 7, e_note := ''dinner''\<rparr>, snack_row],
                     t_seq = 3\<rparr>)"
    by (simp add: update_expense_def sql_update_def in_int64_def init_db_def example_defs)
  note t = update_changes_only_supplied_fields
    [of example_db 2 "Some 7" None None "Some ''dinner''", unfolded Let_def]
  have k: "(1::nat) < length (t_rows (contents example_db))"
    by (simp add: example_db_def)
  from t have "\<forall>k<length (t_rows (contents example_db)).
      e_id (t_rows (contents (snd (update_expense 2 (Some 7) None None (Some ''dinner'') example_db))) ! k)
        = e_id (t_rows (contents example_db) ! k)
      \<and> (e_id (t_rows (contents example_db) ! k) \<noteq> 2 \<longrightarrow>
          t_rows (contents (snd (update_expense 2 (Some 7) None None (Some ''dinner'') example_db))) ! k
            = t_rows (contents example_db) ! k)
      \<and> (Some (7::rat) = None \<longrightarrow>
          e_amount (t_rows (contents (snd (update_expense 2 (Some 7) None None (Some ''dinner'') example_db))) ! k)
            = e_amount (t_rows (contents example_db) ! k))
      \<and> ((None :: string option) = None \<longrightarrow>
          e_date (t_rows (contents (snd (update_expense 2 (Some 7) None None (Some ''dinner'') example_db))) ! k)
            = e_date (t_rows (contents example_db) ! k))
      \<and> ((None :: string option) = None \<longrightarrow>
          e_category (t_rows (contents (snd (update_expense 2 (Some 7) None None (Some ''dinner'') example_db))) ! k)
            = e_category (t_rows (contents example_db) ! k))
      \<and> (Some ''dinner'' = None \<longrightarrow>
          e_note (t_rows (contents (snd (update_expense 2 (Some 7) None None (Some ''dinner'') example_db))) ! k)
            = e_note (t_rows (contents example_db) ! k))"
    by blast
  with k have "e_date (t_rows (contents (snd (update_expense 2 (Some 7) None None (Some ''dinner'') example_db))) ! 1)
        = e_date (t_rows (contents example_db) ! 1)
      \<and> e_category (t_rows (contents (snd (update_expense 2 (Some 7) None None (Some ''dinner'') example_db))) ! 1)
        = e_category (t_rows (contents example_db) ! 1)"
    by blast
  then have "e_date (t_rows (contents (snd (update_expense 2 (Some 7) None None (Some ''dinner'') example_db))) ! 1)
        = ''2025-01-03''
      \<and> e_category (t_rows (contents (snd (update_expense 2 (Some 7) None None (Some ''dinner'') example_db))) ! 1)
        = ''food''"
    by (simp add: example_defs)
  with v show ?thesis by blast
qed

section \<open>Totals by category\<close>




end
